theory Spec2Isabelle
  imports Main "HOL-Library.Sublist" "HOL-Library.Code_Target_Nat"
begin

section \<open>Strings of the host language\<close>

text \<open>
  A string of the source language is a sequence of UTF-16 code units. A code unit is a
  number (below 65536 in every string the program can hold), and a string is the list of
  its code units. \<open>str\<close> turns an ASCII literal into such a string.
\<close>

type_synonym code_unit = nat

type_synonym jstring = "code_unit list"

definition str :: "string \<Rightarrow> jstring" where
  "str s = map of_char s"

text \<open>
  The string methods the sources use, written out on lists. \<^verbatim>\<open>s.startsWith(p)\<close>
  compares the first \<open>length p\<close> code units of \<open>s\<close> with \<open>p\<close>;
  \<^verbatim>\<open>s.substring(n)\<close> (with \<open>n\<close> non-negative) drops the first \<open>n\<close> code units and
  gives the empty string when \<open>s\<close> is shorter.
\<close>

definition startsWith :: "jstring \<Rightarrow> jstring \<Rightarrow> bool" where
  "startsWith s p = (take (length p) s = p)"

definition substring :: "jstring \<Rightarrow> nat \<Rightarrow> jstring" where
  "substring s n = drop n s"

text \<open>
  White space as \<^verbatim>\<open>\s\<close> and \<^verbatim>\<open>trim()\<close> see it: the white space and line
  terminator code points of the language. These are tab, line feed, vertical tab, form
  feed, carriage return, space, U+00A0, U+1680, U+2000 to U+200A, U+2028, U+2029,
  U+202F, U+205F, U+3000 and U+FEFF.
\<close>

definition js_space :: "code_unit \<Rightarrow> bool" where
  "js_space c =
     (c \<in> set [0x09, 0x0A, 0x0B, 0x0C, 0x0D, 0x20, 0xA0, 0x1680, 0x2028, 0x2029, 0x202F,
               0x205F, 0x3000, 0xFEFF]
      \<or> (0x2000 \<le> c \<and> c \<le> 0x200A))"

definition trim :: "jstring \<Rightarrow> jstring" where
  "trim s = rev (dropWhile js_space (rev (dropWhile js_space s)))"

text \<open>The line feed, the double quote and the backslash, as strings of one code unit.\<close>

definition nl :: jstring where
  "nl = [0x0A]"

definition dq :: jstring where
  "dq = [0x22]"

definition bs :: jstring where
  "bs = [0x5C]"

text \<open>\<^verbatim>\<open>s.split(" ")\<close>: the pieces between the separators, empty pieces kept.\<close>

fun split :: "code_unit \<Rightarrow> jstring \<Rightarrow> jstring list" where
  "split sep [] = [[]]"
| "split sep (c # cs) =
     (if c = sep then [] # split sep cs
      else (case split sep cs of w # ws \<Rightarrow> (c # w) # ws | [] \<Rightarrow> [[c]]))"

fun join :: "jstring \<Rightarrow> jstring list \<Rightarrow> jstring" where
  "join sep [] = []"
| "join sep [x] = x"
| "join sep (x # xs) = x @ sep @ join sep xs"

text \<open>
  \<^verbatim>\<open>s.replace(/\\n/g, "\n")\<close>: every backslash followed by \<open>n\<close> becomes one line
  feed, scanning left to right.
\<close>

fun replace_escaped_newlines :: "jstring \<Rightarrow> jstring" where
  "replace_escaped_newlines (a # b # s) =
     (if a = 0x5C \<and> b = 0x6E then 0x0A # replace_escaped_newlines s
      else a # replace_escaped_newlines (b # s))"
| "replace_escaped_newlines s = s"

text \<open>Numbers in template literals are printed in decimal.\<close>

definition digit_char :: "nat \<Rightarrow> code_unit" where
  "digit_char n = str ''0123456789abcdef'' ! (n mod 16)"

function decimal :: "nat \<Rightarrow> jstring" where
  "decimal n = (if n < 10 then [digit_char n] else decimal (n div 10) @ [digit_char (n mod 10)])"
  by pat_completeness auto
termination
  by (relation "measure id") auto

declare decimal.simps [simp del]

text \<open>
  \<^verbatim>\<open>JSON.stringify\<close> on a string: the string in double quotes. The quote, the
  backslash and the control characters are escaped, and so is a surrogate that is not
  part of a pair; a surrogate pair and every other code unit are copied.
\<close>

definition hex4 :: "nat \<Rightarrow> jstring" where
  "hex4 n = [digit_char (n div 4096), digit_char (n div 256), digit_char (n div 16), digit_char n]"

definition lead_surrogate :: "code_unit \<Rightarrow> bool" where
  "lead_surrogate c = (0xD800 \<le> c \<and> c \<le> 0xDBFF)"

definition trail_surrogate :: "code_unit \<Rightarrow> bool" where
  "trail_surrogate c = (0xDC00 \<le> c \<and> c \<le> 0xDFFF)"

definition json_escape :: "code_unit \<Rightarrow> jstring" where
  "json_escape c =
     (if c = 0x08 then bs @ str ''b''
      else if c = 0x09 then bs @ str ''t''
      else if c = 0x0A then bs @ str ''n''
      else if c = 0x0C then bs @ str ''f''
      else if c = 0x0D then bs @ str ''r''
      else if c = 0x22 then bs @ dq
      else if c = 0x5C then bs @ bs
      else if c < 0x20 \<or> lead_surrogate c \<or> trail_surrogate c then bs @ str ''u'' @ hex4 c
      else [c])"

fun json_escape_all :: "jstring \<Rightarrow> jstring" where
  "json_escape_all (a # b # s) =
     (if lead_surrogate a \<and> trail_surrogate b then a # b # json_escape_all s
      else json_escape a @ json_escape_all (b # s))"
| "json_escape_all [a] = json_escape a"
| "json_escape_all [] = []"

definition json_string :: "jstring \<Rightarrow> jstring" where
  "json_string s = dq @ json_escape_all s @ dq"

text \<open>
  Truthiness of an optional string: \<^verbatim>\<open>undefined\<close>, \<^verbatim>\<open>null\<close> and the empty
  string are falsy. \<open>or_else s d\<close> is \<^verbatim>\<open>s || d\<close>, and \<open>template s\<close> is how a
  template literal prints \<open>s\<close>.
\<close>

definition truthy :: "jstring option \<Rightarrow> bool" where
  "truthy s = (case s of None \<Rightarrow> False | Some t \<Rightarrow> t \<noteq> [])"

definition or_else :: "jstring option \<Rightarrow> jstring \<Rightarrow> jstring" where
  "or_else s d = (case s of None \<Rightarrow> d | Some t \<Rightarrow> if t \<noteq> [] then t else d)"

definition template :: "jstring option \<Rightarrow> jstring" where
  "template s = (case s of None \<Rightarrow> str ''undefined'' | Some t \<Rightarrow> t)"

text \<open>
  \<^verbatim>\<open>xs.slice(start)\<close> with one argument: a negative \<open>start\<close> counts from the end,
  and both ends are clamped to the array.
\<close>

definition slice_from :: "int \<Rightarrow> 'a list \<Rightarrow> 'a list" where
  "slice_from start xs =
     (let len = int (length xs);
          k = (if start < 0 then max (len + start) 0 else min start len)
      in drop (nat k) xs)"

section \<open>Regular expressions\<close>

text \<open>
  The four regular expressions of \<^verbatim>\<open>ollama-agent-loop.ts\<close> are built from literals,
  three character classes (\<^verbatim>\<open>\s\<close>, \<^verbatim>\<open>[\s\S]\<close>, \<^verbatim>\<open>[^"]\<close>, each matching one
  code unit), greedy and lazy repetition of a class, alternation, an optional group and
  capturing groups. A match is computed as the backtracking matcher does:
  \<open>rx_match r (s, caps)\<close> lists, in the order backtracking tries them, every way \<open>r\<close>
  can match at the start of \<open>s\<close>, each as the text left over and the captures so far.
  The first element is the match the engine reports.
\<close>

datatype cclass = Space | AnyChar | NotQuote

fun in_class :: "cclass \<Rightarrow> code_unit \<Rightarrow> bool" where
  "in_class Space c = js_space c"
| "in_class AnyChar c = True"
| "in_class NotQuote c = (c \<noteq> 0x22)"

datatype rx =
    Lit jstring
  | Star cclass
  | LazyStar cclass
  | Plus cclass
  | Seq rx rx
  | Alt rx rx
  | Opt rx
  | Group rx

type_synonym mstate = "jstring \<times> jstring list"

fun rx_match :: "rx \<Rightarrow> mstate \<Rightarrow> mstate list" where
  "rx_match (Lit l) (s, caps) = (if startsWith s l then [(drop (length l) s, caps)] else [])"
| "rx_match (Star c) (s, caps) =
     map (\<lambda>k. (drop k s, caps)) (rev [0 ..< Suc (length (takeWhile (in_class c) s))])"
| "rx_match (LazyStar c) (s, caps) =
     map (\<lambda>k. (drop k s, caps)) [0 ..< Suc (length (takeWhile (in_class c) s))]"
| "rx_match (Plus c) (s, caps) =
     map (\<lambda>k. (drop k s, caps)) (rev [1 ..< Suc (length (takeWhile (in_class c) s))])"
| "rx_match (Seq a b) st = concat (map (rx_match b) (rx_match a st))"
| "rx_match (Alt a b) st = rx_match a st @ rx_match b st"
| "rx_match (Opt a) st = rx_match a st @ [st]"
| "rx_match (Group a) (s, caps) =
     map (\<lambda>(s', caps'). (s', caps' @ [take (length s - length s') s])) (rx_match a (s, caps))"

fun seqs :: "rx list \<Rightarrow> rx" where
  "seqs [] = Lit []"
| "seqs [r] = r"
| "seqs (r # rs) = Seq r (seqs rs)"

text \<open>
  The result of \<^verbatim>\<open>exec\<close>: where the match starts, where it ends (the regular
  expression's next \<^verbatim>\<open>lastIndex\<close>) and the captured groups in order.
  \<open>rx_search r i s\<close> tries the start positions of \<open>s\<close> from left to right, \<open>i\<close> being
  the offset of \<open>s\<close> in the whole text.
\<close>

record rx_result =
  index :: nat
  lastIndex :: nat
  groups :: "jstring list"

fun rx_search :: "rx \<Rightarrow> nat \<Rightarrow> jstring \<Rightarrow> rx_result option" where
  "rx_search r i [] =
     (case rx_match r ([], []) of
        (rest, caps) # _ \<Rightarrow> Some \<lparr>index = i, lastIndex = i, groups = caps\<rparr>
      | [] \<Rightarrow> None)"
| "rx_search r i (c # s) =
     (case rx_match r (c # s, []) of
        (rest, caps) # _ \<Rightarrow>
          Some \<lparr>index = i, lastIndex = i + (length (c # s) - length rest), groups = caps\<rparr>
      | [] \<Rightarrow> rx_search r (Suc i) s)"

definition rx_exec :: "rx \<Rightarrow> jstring \<Rightarrow> nat \<Rightarrow> rx_result option" where
  "rx_exec r text i = (if length text < i then None else rx_search r i (drop i text))"

text \<open>
  The loop \<^verbatim>\<open>while ((match = re.exec(text)) !== null)\<close> over a global regular
  expression: each round searches from the end of the previous match. The loop of the
  source would not end on a match that leaves \<^verbatim>\<open>lastIndex\<close> where it was; the guard
  stops there instead, and \<open>rx_exec_guard\<close> below shows that the regular expressions of
  this program, which begin with a non-empty literal, never reach that case.
\<close>

function rx_exec_all :: "rx \<Rightarrow> jstring \<Rightarrow> nat \<Rightarrow> rx_result list" where
  "rx_exec_all r text i =
     (case rx_exec r text i of
        None \<Rightarrow> []
      | Some m \<Rightarrow>
          (if i < lastIndex m \<and> lastIndex m \<le> length text
           then m # rx_exec_all r text (lastIndex m) else []))"
  by pat_completeness auto
termination
  by (relation "measure (\<lambda>(r, text, i). length text - i)") auto

declare rx_exec_all.simps [simp del]

definition group1 :: "rx_result \<Rightarrow> jstring" where
  "group1 m = (case groups m of g # _ \<Rightarrow> g | [] \<Rightarrow> [])"

section \<open>Model names (\<^verbatim>\<open>ollama-client.ts\<close>)\<close>

text \<open>
  \<^verbatim>\<open>formatOllamaModelName\<close> is the template literal \<^verbatim>\<open>`ollama:${modelName}`\<close>;
  \<^verbatim>\<open>extractOllamaModelName\<close> returns \<^verbatim>\<open>null\<close> (here \<open>None\<close>) unless its
  argument starts with the prefix, and otherwise the argument from index 7 on;
  \<^verbatim>\<open>isOllamaModel\<close> is the prefix test alone.
\<close>

definition formatOllamaModelName :: "jstring \<Rightarrow> jstring" where
  "formatOllamaModelName modelName = str ''ollama:'' @ modelName"

definition extractOllamaModelName :: "jstring \<Rightarrow> jstring option" where
  "extractOllamaModelName prefixedModelName =
     (if \<not> startsWith prefixedModelName (str ''ollama:'') then None
      else Some (substring prefixedModelName 7))"

definition isOllamaModel :: "jstring \<Rightarrow> bool" where
  "isOllamaModel modelName = startsWith modelName (str ''ollama:'')"

section \<open>Messages and items\<close>

text \<open>
  \<^verbatim>\<open>OllamaMessage\<close> and \<^verbatim>\<open>OllamaChatCompletionResponse\<close> as the client declares
  them (the response's \<^verbatim>\<open>model\<close> and \<^verbatim>\<open>done\<close> fields are \<open>resp_model\<close> and
  \<open>done_flag\<close> here).
\<close>

datatype role = User | Assistant | System

record OllamaMessage =
  role :: role
  content :: jstring

record OllamaChatCompletionResponse =
  resp_model :: jstring
  created_at :: jstring
  message :: OllamaMessage
  done_flag :: bool

text \<open>
  The response items the loop reads and writes. A message carries an optional id, a role
  and its content parts; a function call carries the fields of both wire shapes (the flat
  one with \<^verbatim>\<open>name\<close> and \<^verbatim>\<open>arguments\<close>, the chat one with a nested
  \<^verbatim>\<open>function\<close>); a function call output carries its \<^verbatim>\<open>call_id\<close> and output
  text; a reasoning item its id, \<^verbatim>\<open>duration_ms\<close> and content. \<open>OtherItem\<close>
  stands for every other item type.
\<close>

datatype content_part = InputText jstring | OutputText jstring | OtherPart

record ChatFunction =
  fn_name :: "jstring option"
  fn_arguments :: "jstring option"

record ToolCall =
  tc_id :: "jstring option"
  call_id :: "jstring option"
  name :: "jstring option"
  arguments :: "jstring option"
  func :: "ChatFunction option"

datatype item =
    Message "jstring option" role "content_part list"
  | FunctionCall ToolCall
  | FunctionCallOutput "jstring option" jstring
  | Reasoning jstring int jstring
  | OtherItem

subsection \<open>\<^verbatim>\<open>convertResponseItemsToOllamaMessages\<close>\<close>

fun part_text :: "content_part \<Rightarrow> jstring" where
  "part_text (InputText t) = t"
| "part_text (OutputText t) = t"
| "part_text OtherPart = []"

text \<open>
  One round of the loop over the items: a message with non-empty text becomes a message
  of the same role, a function call output becomes a system message, anything else
  is skipped.
\<close>

fun item_messages :: "item \<Rightarrow> OllamaMessage list" where
  "item_messages (Message i r parts) =
     (let text = concat (map part_text parts)
      in if text \<noteq> [] then [\<lparr>role = r, content = text\<rparr>] else [])"
| "item_messages (FunctionCallOutput c output) = [\<lparr>role = System, content = output\<rparr>]"
| "item_messages other = []"

definition convertResponseItemsToOllamaMessages :: "item list \<Rightarrow> OllamaMessage list" where
  "convertResponseItemsToOllamaMessages items = concat (map item_messages items)"

section \<open>Conversation history\<close>

definition MAX_HISTORY_LENGTH :: nat where
  "MAX_HISTORY_LENGTH = 20"

definition isSystem :: "OllamaMessage \<Rightarrow> bool" where
  "isSystem msg = (role msg = System)"

text \<open>
  \<open>trimHistory\<close> is the \<^verbatim>\<open>if\<close> statement that ends
  \<^verbatim>\<open>updateConversationHistory\<close>: the eviction pass. The function itself first pushes
  the new messages and the model's reply.
\<close>

definition trimHistory :: "OllamaMessage list \<Rightarrow> OllamaMessage list" where
  "trimHistory h =
     (if length h > MAX_HISTORY_LENGTH then
        (let systemMessages = filter isSystem h;
             nonSystemMessages = filter (\<lambda>msg. \<not> isSystem msg) h;
             recentMessages =
               slice_from (- int MAX_HISTORY_LENGTH + int (length systemMessages)) nonSystemMessages
         in systemMessages @ recentMessages)
      else h)"

definition updateConversationHistory ::
  "OllamaMessage list \<Rightarrow> OllamaChatCompletionResponse \<Rightarrow> OllamaMessage list \<Rightarrow> OllamaMessage list" where
  "updateConversationHistory newMessages response history =
     trimHistory ((history @ newMessages) @ [message response])"

text \<open>
  The history after a sequence of completed turns, each given by the messages it sent
  and the reply it received.
\<close>

fun history_after ::
  "(OllamaMessage list \<times> OllamaChatCompletionResponse) list \<Rightarrow> OllamaMessage list
   \<Rightarrow> OllamaMessage list" where
  "history_after [] h = h"
| "history_after ((newMessages, response) # turns) h =
     history_after turns (updateConversationHistory newMessages response h)"

text \<open>Every message a sequence of turns adds, in order.\<close>

fun turn_messages ::
  "(OllamaMessage list \<times> OllamaChatCompletionResponse) list \<Rightarrow> OllamaMessage list" where
  "turn_messages [] = []"
| "turn_messages ((newMessages, response) # turns) =
     newMessages @ [message response] @ turn_messages turns"

section \<open>The agent loop (\<^verbatim>\<open>ollama-agent-loop.ts\<close>)\<close>

subsection \<open>State\<close>

text \<open>
  A call of one of the three callbacks of the loop: \<^verbatim>\<open>onItem\<close>,
  \<^verbatim>\<open>onLoading\<close>, \<^verbatim>\<open>onLastResponseId\<close>.
\<close>

datatype event = OnItem item | OnLoading bool | OnLastResponseId jstring

text \<open>
  The fields of an \<^verbatim>\<open>OllamaAgentLoop\<close> that its methods read or assign. An
  \<^verbatim>\<open>AbortController\<close> is an object shared with the tool call that received its
  signal, so the controllers live in a store, \<open>controllers\<close>, that holds the
  \<^verbatim>\<open>aborted\<close> flag of each controller ever created for tool calls, and
  \<open>execAbortController\<close> is a reference into it. \<open>hardAbort\<close> is the
  \<^verbatim>\<open>aborted\<close> flag of the master controller. \<open>moduleSessionId\<close> is the session id
  of the session module (\<^verbatim>\<open>setSessionId\<close>).

  The callbacks are the caller's code. \<open>callbacks\<close> says what a call of one of them
  does, given the calls made before: it returns (\<open>None\<close>) or it throws an error with a
  message. \<open>emitted\<close> is the record of the calls made, whether they returned or threw.
  (A callback that calls back into the loop, or that does not return, is not covered.)
\<close>

record agent =
  model :: jstring
  instructions :: "jstring option"
  ollamaApiUrl :: jstring
  conversationHistory :: "OllamaMessage list"
  currentStream :: "nat option"
  generation :: nat
  execAbortController :: "nat option"
  canceled :: bool
  terminated :: bool
  hardAbort :: bool
  sessionId :: jstring
  controllers :: "bool list"
  moduleSessionId :: jstring
  callbacks :: "event list \<Rightarrow> event \<Rightarrow> jstring option"
  emitted :: "event list"

text \<open>
  A stretch of code that may throw: it ends with an error thrown (\<open>Inl\<close> with the
  error's message) or with a result, and leaves a state either way.
\<close>

type_synonym 'r step = "agent \<Rightarrow> (jstring + 'r) \<times> agent"

definition emit :: "event \<Rightarrow> unit step" where
  "emit ev a =
     (case callbacks a (emitted a) ev of
        None \<Rightarrow> (Inr (), a\<lparr>emitted := emitted a @ [ev]\<rparr>)
      | Some msg \<Rightarrow> (Inl msg, a\<lparr>emitted := emitted a @ [ev]\<rparr>))"

text \<open>A loop that calls \<^verbatim>\<open>onItem\<close> on each item of a list: it stops where a call throws.\<close>

fun emit_items :: "item list \<Rightarrow> unit step" where
  "emit_items [] a = (Inr (), a)"
| "emit_items (i # its) a =
     (case emit (OnItem i) a of
        (Inl msg, a') \<Rightarrow> (Inl msg, a')
      | (Inr _, a') \<Rightarrow> emit_items its a')"

text \<open>\<^verbatim>\<open>this.execAbortController?.abort()\<close> and \<^verbatim>\<open>new AbortController()\<close>.\<close>

definition abortExec :: "agent \<Rightarrow> agent" where
  "abortExec a =
     (case execAbortController a of
        None \<Rightarrow> a
      | Some i \<Rightarrow> a\<lparr>controllers := (controllers a)[i := True]\<rparr>)"

definition newAbortController :: "agent \<Rightarrow> agent" where
  "newAbortController a =
     a\<lparr>execAbortController := Some (length (controllers a)),
       controllers := controllers a @ [False]\<rparr>"

text \<open>
  The constructor. Its arguments are the model, the instructions, the configured API URL,
  the callbacks, and what \<^verbatim>\<open>getSessionId()\<close> and \<^verbatim>\<open>randomUUID()\<close> return
  when it runs.
\<close>

definition newOllamaAgentLoop ::
  "jstring \<Rightarrow> jstring option \<Rightarrow> jstring option \<Rightarrow> (event list \<Rightarrow> event \<Rightarrow> jstring option)
   \<Rightarrow> jstring option \<Rightarrow> jstring \<Rightarrow> agent" where
  "newOllamaAgentLoop m ins apiUrl cbs existingSession uuid =
     (let sid = or_else existingSession (filter (\<lambda>c. c \<noteq> 0x2D) uuid)
      in \<lparr>model = m, instructions = ins,
          ollamaApiUrl = or_else apiUrl (str ''http://localhost:11434''),
          conversationHistory = [], currentStream = None, generation = 0,
          execAbortController = None, canceled = False, terminated = False,
          hardAbort = False, sessionId = sid, controllers = [],
          moduleSessionId = sid, callbacks = cbs, emitted = []\<rparr>)"

subsection \<open>\<^verbatim>\<open>cancel\<close>, \<^verbatim>\<open>terminate\<close>, \<^verbatim>\<open>clearConversationHistory\<close>\<close>

definition cancel :: "unit step" where
  "cancel a =
     (if terminated a then (Inr (), a)
      else
        (let a1 = a\<lparr>currentStream := None\<rparr>;
             a2 = a1\<lparr>canceled := True\<rparr>;
             a3 = abortExec a2;
             a4 = newAbortController a3
         in case emit (OnLoading False) a4 of
              (Inl msg, a5) \<Rightarrow> (Inl msg, a5)
            | (Inr _, a5) \<Rightarrow> (Inr (), a5\<lparr>generation := generation a5 + 1\<rparr>)))"

text \<open>
  \<^verbatim>\<open>this.hardAbort.abort()\<close>: the first call sets the flag and runs the listener
  the constructor registered once, which aborts the current tool-call controller.
\<close>

definition abortHard :: "agent \<Rightarrow> agent" where
  "abortHard a = (if hardAbort a then a else abortExec (a\<lparr>hardAbort := True\<rparr>))"

definition terminate :: "unit step" where
  "terminate a =
     (if terminated a then (Inr (), a)
      else
        (let a1 = a\<lparr>terminated := True\<rparr>;
             a2 = abortHard a1
         in cancel a2))"

text \<open>The argument \<open>uuid\<close> is what \<^verbatim>\<open>randomUUID()\<close> returns.\<close>

definition clearConversationHistory :: "jstring \<Rightarrow> agent \<Rightarrow> agent" where
  "clearConversationHistory uuid a =
     (let a1 = a\<lparr>conversationHistory := []\<rparr>;
          a2 = a1\<lparr>generation := 0\<rparr>;
          a3 = a2\<lparr>sessionId := filter (\<lambda>c. c \<noteq> 0x2D) uuid\<rparr>
      in a3\<lparr>moduleSessionId := sessionId a3\<rparr>)"

subsection \<open>\<^verbatim>\<open>parseFunctionCalls\<close>\<close>

text \<open>
  The clock and the random source, as one synchronous stretch of code sees them:
  \<^verbatim>\<open>Date.now()\<close> is \<open>now\<close>, and the \<open>k\<close>-th value of
  \<^verbatim>\<open>Math.random().toString(36).substring(2, 9)\<close> drawn is \<open>random36 k\<close>.
\<close>

record env =
  now :: nat
  random36 :: "nat \<Rightarrow> jstring"

definition shellCommandRegex :: rx where
  "shellCommandRegex =
     seqs [Lit (str ''```''), Alt (Lit (str ''bash'')) (Lit (str ''sh'')), Star Space, Lit nl,
           Group (LazyStar AnyChar), Lit (nl @ str ''```'')]"

definition applyPatchRegex :: rx where
  "applyPatchRegex =
     seqs [Lit (str ''```json''), Star Space, Lit (str ''{''), Star Space,
           Lit (dq @ str ''cmd'' @ dq), Star Space, Lit (str '':''), Star Space,
           Lit (str ''[''), Star Space, Lit (dq @ str ''apply_patch'' @ dq), Star Space,
           Lit (str '',''), Star Space, Lit dq, Group (LazyStar AnyChar), Lit dq, Star Space,
           Lit (str '']''), Star Space, Lit (str ''}''), Star Space, Lit (str ''```'')]"

definition shell_call :: "env \<Rightarrow> nat \<Rightarrow> jstring \<Rightarrow> ToolCall" where
  "shell_call e k command =
     (let id = str ''ollama-shell-'' @ decimal (now e) @ str ''-'' @ random36 e k
      in \<lparr>tc_id = Some id, call_id = Some id, name = Some (str ''shell''),
          arguments = Some (str ''{'' @ json_string (str ''command'') @ str '':['' @
                            join (str '','') (map json_string (split 0x20 command)) @ str '']}''),
          func = None\<rparr>)"

definition patch_call :: "env \<Rightarrow> nat \<Rightarrow> jstring \<Rightarrow> ToolCall" where
  "patch_call e k patchContent =
     (let id = str ''ollama-patch-'' @ decimal (now e) @ str ''-'' @ random36 e k
      in \<lparr>tc_id = Some id, call_id = Some id, name = Some (str ''apply_patch''),
          arguments = Some (str ''{'' @ json_string (str ''patch'') @ str '':'' @
                            json_string patchContent @ str ''}''),
          func = None\<rparr>)"

text \<open>
  The two \<^verbatim>\<open>while\<close> loops, each as the list of what it pushes: the offset in the
  text where the match starts, and the trimmed command (the patch text with its escaped
  line feeds replaced), for the matches where that text is not empty.
\<close>

definition shell_commands :: "jstring \<Rightarrow> (nat \<times> jstring) list" where
  "shell_commands text =
     filter (\<lambda>(i, command). command \<noteq> [])
       (map (\<lambda>m. (index m, trim (group1 m))) (rx_exec_all shellCommandRegex text 0))"

definition patch_contents :: "jstring \<Rightarrow> (nat \<times> jstring) list" where
  "patch_contents text =
     filter (\<lambda>(i, patchContent). patchContent \<noteq> [])
       (map (\<lambda>m. (index m, replace_escaped_newlines (group1 m)))
          (rx_exec_all applyPatchRegex text 0))"

definition parseFunctionCalls :: "env \<Rightarrow> jstring \<Rightarrow> ToolCall list" where
  "parseFunctionCalls e text =
     (let shells = map snd (shell_commands text);
          patches = map snd (patch_contents text)
      in map (\<lambda>(k, command). shell_call e k command) (enumerate 0 shells) @
         map (\<lambda>(k, patchContent). patch_call e k patchContent) (enumerate (length shells) patches))"


subsection \<open>\<^verbatim>\<open>handleFunctionCall\<close>\<close>

text \<open>
  \<^verbatim>\<open>parseToolCallArguments\<close> (from \<^verbatim>\<open>parsers.js\<close>) and
  \<^verbatim>\<open>handleExecCommand\<close> (from \<^verbatim>\<open>handle-exec-command.js\<close>) are not part of
  these sources. The first is a parameter of the functions below: it maps the raw
  arguments to the parsed command, or to nothing. The second is asynchronous: what it
  resolves to (output text, metadata already rendered as JSON, and optional further items)
  arrives when the run is resumed.
\<close>

record ExecInput =
  cmd :: "jstring list"
  workdir :: "jstring option"
  timeoutInMillis :: "nat option"

record ExecOutcome =
  outputText :: jstring
  metadata :: jstring
  additionalItems :: "item list option"

text \<open>
  \<^verbatim>\<open>handleFunctionCall\<close> up to its only \<^verbatim>\<open>await\<close>: either it has its result
  (\<open>Settled\<close>), or it has called \<^verbatim>\<open>handleExecCommand\<close> with the parsed arguments and
  the signal of the current controller and waits for it (\<open>Executing\<close>, which also keeps
  the call id for the output item).
\<close>

datatype tool_wait =
    Settled "item list"
  | Executing ExecInput "nat option" "jstring option"

definition handleFunctionCall ::
  "(jstring \<Rightarrow> ExecInput option) \<Rightarrow> agent \<Rightarrow> ToolCall \<Rightarrow> tool_wait" where
  "handleFunctionCall parseToolCallArguments a item =
     (if canceled a then Settled []
      else
        (let isChatStyle = (func item \<noteq> None);
             nm = (if isChatStyle then (case func item of Some f \<Rightarrow> fn_name f | None \<Rightarrow> None)
                   else name item);
             rawArguments =
               (if isChatStyle then (case func item of Some f \<Rightarrow> fn_arguments f | None \<Rightarrow> None)
                else arguments item);
             callId = (case call_id item of Some c \<Rightarrow> Some c | None \<Rightarrow> tc_id item);
             args = parseToolCallArguments
                      (case rawArguments of Some r \<Rightarrow> r | None \<Rightarrow> str ''{}'')
         in case args of
              None \<Rightarrow>
                Settled [FunctionCallOutput (if truthy (call_id item) then call_id item else callId)
                           (str ''invalid arguments: '' @ template rawArguments)]
            | Some parsed \<Rightarrow>
                (if nm = Some (str ''container.exec'') \<or> nm = Some (str ''shell'')
                 then Executing parsed (execAbortController a) callId
                 else Settled [FunctionCallOutput callId (str ''no function found'')])))"

text \<open>The rest of \<^verbatim>\<open>handleFunctionCall\<close>, once \<^verbatim>\<open>handleExecCommand\<close> has resolved.\<close>

definition exec_items :: "jstring option \<Rightarrow> ExecOutcome \<Rightarrow> item list" where
  "exec_items callId r =
     FunctionCallOutput callId
       (str ''{'' @ json_string (str ''output'') @ str '':'' @ json_string (outputText r) @
        str '','' @ json_string (str ''metadata'') @ str '':'' @ metadata r @ str ''}'')
     # (case additionalItems r of None \<Rightarrow> [] | Some its \<Rightarrow> its)"

subsection \<open>\<^verbatim>\<open>extractThinkingContent\<close> and \<^verbatim>\<open>convertOllamaResponseToResponseItem\<close>\<close>

definition thinkRegex :: rx where
  "thinkRegex = seqs [Lit (str ''<think>''), Group (LazyStar AnyChar), Lit (str ''</think>'')]"

definition functionCallRegex :: rx where
  "functionCallRegex =
     seqs [Lit (str ''```json''), Star Space, Lit (str ''{''), Star Space,
           Lit (dq @ str ''cmd'' @ dq), Star Space, Lit (str '':''), Star Space,
           Lit (str ''[''), Star Space, Lit dq, Group (Plus NotQuote), Lit dq,
           Opt (seqs [Lit (str '',''), Star Space, Lit dq, Group (Plus NotQuote), Lit dq]),
           Star Space, Lit (str '']''), Star Space, Lit (str ''}''), Star Space,
           Lit (str ''```'')]"

definition extractThinkingContent :: "jstring \<Rightarrow> jstring option \<times> jstring" where
  "extractThinkingContent text =
     (case rx_exec thinkRegex text 0 of
        Some m \<Rightarrow>
          (Some (trim (group1 m)),
           trim (take (index m) text @ drop (lastIndex m) text))
      | None \<Rightarrow> (None, text))"

text \<open>
  The test \<^verbatim>\<open>functionCallMatch && functionCallMatch[1]\<close> on the cleaned content:
  the match of the command block, when there is one and its first group is not empty.
\<close>

definition functionCallMatch :: "jstring \<Rightarrow> rx_result option" where
  "functionCallMatch cleanedContent =
     (case rx_exec functionCallRegex cleanedContent 0 of
        Some m \<Rightarrow> if group1 m \<noteq> [] then Some m else None
      | None \<Rightarrow> None)"

definition convertOllamaResponseToResponseItem ::
  "env \<Rightarrow> OllamaChatCompletionResponse \<Rightarrow> nat \<Rightarrow> item list" where
  "convertOllamaResponseToResponseItem e response thinkingStartTime =
     (let id = str ''ollama-'' @ decimal (now e) @ str ''-'' @ random36 e 0;
          (thinkingContent, cleanedContent) = extractThinkingContent (content (message response));
          reasoning =
            (if truthy thinkingContent
             then [Reasoning (str ''reasoning-'' @ id) (int (now e) - int thinkingStartTime)
                     (template thinkingContent)]
             else []);
          main =
            (case functionCallMatch cleanedContent of
               Some m \<Rightarrow>
                 FunctionCall \<lparr>tc_id = Some id, call_id = Some id, name = Some (group1 m),
                   arguments = Some (case groups m of [g1, g2] \<Rightarrow> g2 | _ \<Rightarrow> []),
                   func = None\<rparr>
             | None \<Rightarrow> Message (Some id) Assistant [OutputText cleanedContent])
      in reasoning @ [main])"

subsection \<open>\<^verbatim>\<open>run\<close>\<close>

text \<open>
  \<^verbatim>\<open>run\<close> is asynchronous. Between two \<^verbatim>\<open>await\<close>s its code runs without
  interruption; at an \<^verbatim>\<open>await\<close> it is suspended, and other calls on the same
  instance (\<^verbatim>\<open>cancel\<close>, \<^verbatim>\<open>terminate\<close>, another \<^verbatim>\<open>run\<close>) may run before
  it is resumed. A suspended run is a \<open>task\<close>: the local variables it captured
  (\<open>run_frame\<close>) and what it waits for. It waits either for
  \<^verbatim>\<open>ollamaChatCompletion\<close>, called with a model name and the messages, or for
  \<^verbatim>\<open>handleFunctionCall\<close>; in the second case it also holds the response and the
  function calls the \<^verbatim>\<open>for\<close> loop has still to process (\<open>None\<close> when the call
  is the main response item, outside the loop).
\<close>

record run_frame =
  thisGeneration :: nat
  thinkingStart :: nat
  newMessages :: "OllamaMessage list"

datatype task =
    AwaitChat run_frame jstring "OllamaMessage list"
  | AwaitTool run_frame OllamaChatCompletionResponse tool_wait "ToolCall list option"

text \<open>
  How a call of \<^verbatim>\<open>run\<close> stands after one stretch of code: still pending, or its
  promise resolved, or its promise rejected with an error message.
\<close>

datatype outcome = Pending task | Resolved | Rejected jstring

text \<open>
  Inside \<^verbatim>\<open>run\<close>, a stretch of code ends in one of three ways: it throws an error
  (\<open>Inl\<close> with the error's message), it reaches an \<^verbatim>\<open>await\<close> (\<open>Inr (Some t)\<close>),
  or it returns (\<open>Inr None\<close>).
\<close>

type_synonym attempt = "(jstring + task option) \<times> agent"

text \<open>The warning sign U+26A0 and the variation selector U+FE0F that follows it.\<close>

definition warning_sign :: jstring where
  "warning_sign = [0x26A0, 0xFE0F]"

definition error_notice :: "env \<Rightarrow> jstring \<Rightarrow> item" where
  "error_notice e text =
     Message (Some (str ''error-'' @ decimal (now e))) System [InputText text]"

text \<open>
  The inner \<^verbatim>\<open>try\<close> statement, applied to the way its block ended. A block that is
  suspended stays inside the statement. When the block threw, the \<^verbatim>\<open>catch\<close> clause
  reports the error as an item; then, and when the block returned, the \<^verbatim>\<open>finally\<close>
  clause clears the loading state. An error thrown by the \<^verbatim>\<open>catch\<close> clause leaves
  the statement after the \<^verbatim>\<open>finally\<close> clause has run, and an error thrown by the
  \<^verbatim>\<open>finally\<close> clause replaces it.
\<close>

definition inner_guard :: "env \<Rightarrow> attempt \<Rightarrow> attempt" where
  "inner_guard e att =
     (case att of
        (Inl msg, a) \<Rightarrow>
          (case emit (OnItem (error_notice e
                   (warning_sign @ str ''  Error while contacting Ollama: '' @ msg))) a of
             (Inl msg2, a1) \<Rightarrow>
               (case emit (OnLoading False) a1 of
                  (Inl msg3, a2) \<Rightarrow> (Inl msg3, a2)
                | (Inr _, a2) \<Rightarrow> (Inl msg2, a2))
           | (Inr _, a1) \<Rightarrow>
               (case emit (OnLoading False) a1 of
                  (Inl msg3, a2) \<Rightarrow> (Inl msg3, a2)
                | (Inr _, a2) \<Rightarrow> (Inr None, a2)))
      | (Inr (Some t), a) \<Rightarrow> (Inr (Some t), a)
      | (Inr None, a) \<Rightarrow>
          (case emit (OnLoading False) a of
             (Inl msg3, a2) \<Rightarrow> (Inl msg3, a2)
           | (Inr _, a2) \<Rightarrow> (Inr None, a2)))"

text \<open>
  The outer \<^verbatim>\<open>try\<close> statement, applied to the way its block ended. Its
  \<^verbatim>\<open>catch\<close> clause clears the loading state and reports the error as an item; an
  error thrown by one of these two calls rejects the promise of \<^verbatim>\<open>run\<close>.
\<close>

definition outer_guard :: "env \<Rightarrow> attempt \<Rightarrow> outcome \<times> agent" where
  "outer_guard e att =
     (case att of
        (Inl msg, a) \<Rightarrow>
          (case emit (OnLoading False) a of
             (Inl msg2, a1) \<Rightarrow> (Rejected msg2, a1)
           | (Inr _, a1) \<Rightarrow>
               (case emit (OnItem (error_notice e
                        (warning_sign @ str ''  Unhandled error: '' @ msg))) a1 of
                  (Inl msg3, a2) \<Rightarrow> (Rejected msg3, a2)
                | (Inr _, a2) \<Rightarrow> (Resolved, a2)))
      | (Inr (Some t), a) \<Rightarrow> (Pending t, a)
      | (Inr None, a) \<Rightarrow> (Resolved, a))"

fun is_user_message :: "item \<Rightarrow> bool" where
  "is_user_message (Message i r parts) = (r = User)"
| "is_user_message other = False"

text \<open>
  \<^verbatim>\<open>run\<close> from its entry to \<^verbatim>\<open>await ollamaChatCompletion(...)\<close>: first the
  block of the outer \<^verbatim>\<open>try\<close> statement up to the inner one, then the statement
  itself.
\<close>

definition run_entry :: "env \<Rightarrow> item list \<Rightarrow> agent \<Rightarrow> attempt" where
  "run_entry e input a =
     (if terminated a then (Inl (str ''OllamaAgentLoop has been terminated''), a)
      else
        (let a1 = a\<lparr>generation := generation a + 1\<rparr>;
             frame = \<lparr>thisGeneration = generation a1, thinkingStart = now e,
                      newMessages = convertResponseItemsToOllamaMessages input\<rparr>;
             a2 = a1\<lparr>canceled := False\<rparr>;
             a3 = a2\<lparr>currentStream := None\<rparr>;
             a4 = newAbortController a3
         in case emit_items (filter is_user_message input) a4 of
              (Inl msg, a5) \<Rightarrow> (Inl msg, a5)
            | (Inr _, a5) \<Rightarrow>
                (case emit (OnLoading True) a5 of
                   (Inl msg, a6) \<Rightarrow> (Inl msg, a6)
                 | (Inr _, a6) \<Rightarrow>
                     (let messages =
                            (if truthy (instructions a6)
                             then [\<lparr>role = System, content = template (instructions a6)\<rparr>]
                             else [])
                            @ conversationHistory a6 @ newMessages frame;
                          actualModelName =
                            or_else (extractOllamaModelName (model a6)) (model a6)
                      in inner_guard e
                           (Inr (Some (AwaitChat frame actualModelName messages)), a6)))))"

definition run_start :: "env \<Rightarrow> item list \<Rightarrow> agent \<Rightarrow> outcome \<times> agent" where
  "run_start e input a = outer_guard e (run_entry e input a)"

text \<open>
  The end of a turn: the history is updated and the caller is told a fresh response id.
  \<open>k\<close> counts the random values this stretch of code has drawn before.
\<close>

definition finish_turn ::
  "env \<Rightarrow> nat \<Rightarrow> run_frame \<Rightarrow> OllamaChatCompletionResponse \<Rightarrow> agent \<Rightarrow> attempt" where
  "finish_turn e k frame response a =
     (let a1 = a\<lparr>conversationHistory :=
                  updateConversationHistory (newMessages frame) response (conversationHistory a)\<rparr>;
          responseId = str ''ollama-'' @ decimal (now e) @ str ''-'' @ random36 e k
      in case emit (OnLastResponseId responseId) a1 of
           (Inl msg, a2) \<Rightarrow> (Inl msg, a2)
         | (Inr _, a2) \<Rightarrow> (Inr None, a2))"

text \<open>The early exit of a checkpoint: \<^verbatim>\<open>this.onLoading(false); return;\<close>\<close>

definition leave_quietly :: "agent \<Rightarrow> attempt" where
  "leave_quietly a =
     (case emit (OnLoading False) a of
        (Inl msg, a1) \<Rightarrow> (Inl msg, a1)
      | (Inr _, a1) \<Rightarrow> (Inr None, a1))"

text \<open>
  The \<^verbatim>\<open>for\<close> loop over the parsed function calls, from the head of a round to the
  \<^verbatim>\<open>await\<close> in it; after the last round the turn ends.
\<close>

definition process_calls ::
  "env \<Rightarrow> nat \<Rightarrow> (jstring \<Rightarrow> ExecInput option) \<Rightarrow> run_frame \<Rightarrow> OllamaChatCompletionResponse
   \<Rightarrow> ToolCall list \<Rightarrow> agent \<Rightarrow> attempt" where
  "process_calls e k parseToolCallArguments frame response functionCalls a =
     (case functionCalls of
        [] \<Rightarrow> finish_turn e k frame response a
      | functionCall # rest \<Rightarrow>
          (if canceled a \<or> hardAbort a then leave_quietly a
           else
             (case emit (OnItem (FunctionCall functionCall)) a of
                (Inl msg, a1) \<Rightarrow> (Inl msg, a1)
              | (Inr _, a1) \<Rightarrow>
                  (Inr (Some (AwaitTool frame response
                     (handleFunctionCall parseToolCallArguments a1 functionCall) (Some rest))),
                   a1))))"

definition first_text :: "content_part list \<Rightarrow> jstring option" where
  "first_text parts =
     (case parts of
        InputText t # _ \<Rightarrow> Some t
      | OutputText t # _ \<Rightarrow> Some t
      | _ \<Rightarrow> None)"

text \<open>
  \<^verbatim>\<open>run\<close> from the point where \<^verbatim>\<open>ollamaChatCompletion\<close> settles, with a
  rejection (\<open>Inl\<close>) or a response, to the next \<^verbatim>\<open>await\<close> or the end.
\<close>

definition chat_body ::
  "env \<Rightarrow> (jstring \<Rightarrow> ExecInput option) \<Rightarrow> run_frame \<Rightarrow> jstring + OllamaChatCompletionResponse
   \<Rightarrow> agent \<Rightarrow> attempt" where
  "chat_body e parseToolCallArguments frame reply a =
     (case reply of
        Inl msg \<Rightarrow> (Inl msg, a)
      | Inr response \<Rightarrow>
          (if canceled a \<or> hardAbort a then leave_quietly a
           else
             (let responseItems =
                    convertOllamaResponseToResponseItem e response (thinkingStart frame)
              in case emit_items responseItems a of
                   (Inl msg, a1) \<Rightarrow> (Inl msg, a1)
                 | (Inr _, a1) \<Rightarrow>
                     (if responseItems = [] then finish_turn e 1 frame response a1
                      else
                        (case last responseItems of
                           Message i r parts \<Rightarrow>
                             (if truthy (first_text parts)
                              then process_calls e 1 parseToolCallArguments frame response
                                     (parseFunctionCalls
                                        (e\<lparr>random36 := (\<lambda>k. random36 e (Suc k))\<rparr>)
                                        (template (first_text parts))) a1
                              else finish_turn e 1 frame response a1)
                         | FunctionCall tc \<Rightarrow>
                             (Inr (Some (AwaitTool frame response
                                (handleFunctionCall parseToolCallArguments a1 tc) None)), a1)
                         | other \<Rightarrow> finish_turn e 1 frame response a1)))))"

definition resume_chat ::
  "env \<Rightarrow> (jstring \<Rightarrow> ExecInput option) \<Rightarrow> run_frame \<Rightarrow> jstring + OllamaChatCompletionResponse
   \<Rightarrow> agent \<Rightarrow> outcome \<times> agent" where
  "resume_chat e parseToolCallArguments frame reply a =
     outer_guard e (inner_guard e (chat_body e parseToolCallArguments frame reply a))"

text \<open>
  \<^verbatim>\<open>run\<close> from the point where \<^verbatim>\<open>handleFunctionCall\<close> settles. The reply is
  what \<^verbatim>\<open>handleExecCommand\<close> settled with, a rejection (\<open>Inl\<close>) or its result; it
  is not read when the call had its result without executing.
\<close>

definition tool_result :: "tool_wait \<Rightarrow> jstring + ExecOutcome \<Rightarrow> jstring + item list" where
  "tool_result wait reply =
     (case wait of
        Settled its \<Rightarrow> Inr its
      | Executing args signal callId \<Rightarrow>
          (case reply of Inl msg \<Rightarrow> Inl msg | Inr r \<Rightarrow> Inr (exec_items callId r)))"

definition tool_body ::
  "env \<Rightarrow> (jstring \<Rightarrow> ExecInput option) \<Rightarrow> run_frame \<Rightarrow> OllamaChatCompletionResponse
   \<Rightarrow> tool_wait \<Rightarrow> ToolCall list option \<Rightarrow> jstring + ExecOutcome \<Rightarrow> agent \<Rightarrow> attempt" where
  "tool_body e parseToolCallArguments frame response wait rest reply a =
     (case tool_result wait reply of
        Inl msg \<Rightarrow> (Inl msg, a)
      | Inr result \<Rightarrow>
          (case emit_items result a of
             (Inl msg, a1) \<Rightarrow> (Inl msg, a1)
           | (Inr _, a1) \<Rightarrow>
               (case rest of
                  Some functionCalls \<Rightarrow>
                    process_calls e 0 parseToolCallArguments frame response functionCalls a1
                | None \<Rightarrow> finish_turn e 0 frame response a1)))"

definition resume_tool ::
  "env \<Rightarrow> (jstring \<Rightarrow> ExecInput option) \<Rightarrow> run_frame \<Rightarrow> OllamaChatCompletionResponse
   \<Rightarrow> tool_wait \<Rightarrow> ToolCall list option \<Rightarrow> jstring + ExecOutcome \<Rightarrow> agent \<Rightarrow> outcome \<times> agent" where
  "resume_tool e parseToolCallArguments frame response wait rest reply a =
     outer_guard e
       (inner_guard e (tool_body e parseToolCallArguments frame response wait rest reply a))"

text \<open>
  A run that nothing interrupts: each pending tool call is resumed with the next reply
  of a list, until the run is settled or the replies are used up.
\<close>

fun drive ::
  "env \<Rightarrow> (jstring \<Rightarrow> ExecInput option) \<Rightarrow> (jstring + ExecOutcome) list \<Rightarrow> outcome \<times> agent
   \<Rightarrow> outcome \<times> agent" where
  "drive e P (r # rs) (Pending (AwaitTool frame response wait rest), a) =
     drive e P rs (resume_tool e P frame response wait rest r a)"
| "drive e P rs oa = oa"

subsection \<open>Observations\<close>

text \<open>
  The callback calls a stretch of code added to the record, the loading states among
  them, and the last of these.
\<close>

definition new_events :: "agent \<Rightarrow> agent \<Rightarrow> event list" where
  "new_events a a' = drop (length (emitted a)) (emitted a')"

fun loading_calls :: "event list \<Rightarrow> bool list" where
  "loading_calls [] = []"
| "loading_calls (OnLoading b # evs) = b # loading_calls evs"
| "loading_calls (ev # evs) = loading_calls evs"





subsection \<open>Sample values\<close>

text \<open>
  Values for the concrete runs below: the last \<open>n\<close> elements of a list, a clock and
  random source, callbacks that return, callbacks of which \<^verbatim>\<open>onItem\<close> throws, two
  stand-ins for \<^verbatim>\<open>parseToolCallArguments\<close> (one that rejects every payload and
  one that accepts every payload as a one-word command), a fresh instance with each kind
  of callbacks, a user message and a reply of the model.
\<close>

definition most_recent :: "nat \<Rightarrow> 'a list \<Rightarrow> 'a list" where
  "most_recent n xs = drop (length xs - n) xs"

definition env0 :: env where
  "env0 = \<lparr>now = 0, random36 = decimal\<rparr>"

definition quiet :: "event list \<Rightarrow> event \<Rightarrow> jstring option" where
  "quiet calls ev = None"


definition reject_arguments :: "jstring \<Rightarrow> ExecInput option" where
  "reject_arguments raw = None"


definition agent0 :: agent where
  "agent0 = newOllamaAgentLoop (str ''ollama:gemma3:1b'') None None quiet None (str ''1234-5678'')"


definition user_says :: "jstring \<Rightarrow> item" where
  "user_says t = Message None User [InputText t]"

definition reply_text :: "jstring \<Rightarrow> OllamaChatCompletionResponse" where
  "reply_text t = \<lparr>resp_model = str ''gemma3:1b'', created_at = [],
      message = \<lparr>role = Assistant, content = t\<rparr>, done_flag = True\<rparr>"

text \<open>
  An input of twenty-one function call outputs, and the messages a turn with that input
  adds to the history.
\<close>

definition flood_input :: "item list" where
  "flood_input = replicate 21 (FunctionCallOutput (Some (str ''call'')) (str ''ok''))"

definition flood_turn :: "OllamaMessage list \<times> OllamaChatCompletionResponse" where
  "flood_turn = (convertResponseItemsToOllamaMessages flood_input, reply_text (str ''fine''))"

text \<open>
  The length of the history after one whole run on a fresh instance with that input.
\<close>

definition flood_run :: "nat option" where
  "flood_run =
     (case run_start env0 flood_input agent0 of
        (Pending (AwaitChat frame m ms), a1) \<Rightarrow>
          Some (length (conversationHistory
            (snd (resume_chat env0 reject_arguments frame (Inr (reply_text (str ''fine''))) a1))))
      | _ \<Rightarrow> None)"

text \<open>
  The history of scenario D at the eviction pass: one system message and twenty-five
  others, the last two of them pushed by the turn that ends.
\<close>

definition numbered :: "role \<Rightarrow> nat \<Rightarrow> OllamaMessage" where
  "numbered r k = \<lparr>role = r, content = decimal k\<rparr>"

definition scenario_D_history :: "OllamaMessage list" where
  "scenario_D_history = numbered System 0 # map (numbered User) [1 ..< 24]"

definition scenario_D_new :: "OllamaMessage list" where
  "scenario_D_new = [numbered User 24]"

definition scenario_D_reply :: OllamaChatCompletionResponse where
  "scenario_D_reply = reply_text (str ''25'')"

text \<open>A history one message below the cap.\<close>

definition near_cap_history :: "OllamaMessage list" where
  "near_cap_history = numbered System 0 # map (numbered User) [1 ..< 19]"

text \<open>
  A run that is overtaken: a first run is started and waits for the model; the user
  cancels; a second run is started; then the model's reply to the first run arrives. The
  scenario reports the generation the first run captured, the generation of the instance
  when the reply arrives, and the callbacks the first run makes from then on.
\<close>

definition stale_scenario ::
  "env \<Rightarrow> (jstring \<Rightarrow> ExecInput option) \<Rightarrow> (nat \<times> nat \<times> event list) option" where
  "stale_scenario e P =
     (case run_start e [user_says (str ''first'')] agent0 of
        (Pending (AwaitChat frameA m ms), a1) \<Rightarrow>
          (let a2 = snd (cancel a1);
               a3 = snd (run_start e [user_says (str ''second'')] a2);
               a4 = snd (resume_chat e P frameA (Inr (reply_text (str ''stale answer''))) a3)
           in Some (thisGeneration frameA, generation a3, new_events a3 a4))
      | _ \<Rightarrow> None)"







section \<open>Properties of the model-name functions\<close>

lemma startsWith_prefix: "startsWith s p = prefix p s"
  unfolding startsWith_def
  by (metis append_eq_conv_conj prefix_def)

text \<open>
  Claim C10. Extracting the model name from a formatted name gives the name back, for
  every name; and for every string, extraction answers null exactly when
  \<open>isOllamaModel\<close> is false, which is exactly when the string does not begin with
  \<open>ollama:\<close>.
\<close>

theorem extract_format_roundtrip:
  "extractOllamaModelName (formatOllamaModelName m) = Some m
   \<and> ((extractOllamaModelName s = None) = (\<not> isOllamaModel s))
   \<and> (isOllamaModel s = prefix (str ''ollama:'') s)"
  by (simp add: extractOllamaModelName_def formatOllamaModelName_def isOllamaModel_def
      startsWith_prefix substring_def str_def)

section \<open>Properties of the history\<close>

lemma length_filter_split:
  "length (filter P xs) + length (filter (\<lambda>x. \<not> P x) xs) = length xs"
  by (induction xs) auto

lemma filter_drop_filter_not: "filter P (drop k (filter (\<lambda>x. \<not> P x) xs)) = []"
  by (auto simp: filter_empty_conv dest: in_set_dropD)

lemma trim_systems: "filter isSystem (trimHistory h) = filter isSystem h"
  by (simp add: trimHistory_def Let_def slice_from_def filter_drop_filter_not)

lemma trim_length:
  assumes "length (filter isSystem h) < MAX_HISTORY_LENGTH"
  shows "length (trimHistory h) \<le> MAX_HISTORY_LENGTH"
proof (cases "length h > MAX_HISTORY_LENGTH")
  case False
  then show ?thesis by (simp add: trimHistory_def)
next
  case True
  let ?s = "length (filter isSystem h)"
  have neg: "- int MAX_HISTORY_LENGTH + int ?s < 0" using assms by simp
  have "length (slice_from (- int MAX_HISTORY_LENGTH + int ?s) (filter (\<lambda>msg. \<not> isSystem msg) h))
        \<le> MAX_HISTORY_LENGTH - ?s"
    using neg by (simp add: slice_from_def Let_def)
  then show ?thesis using True assms
    by (simp add: trimHistory_def Let_def)
qed

lemma trim_scenario:
  assumes s: "length (filter isSystem h) = 1"
    and n: "length (filter (\<lambda>msg. \<not> isSystem msg) h) = 25"
  shows "trimHistory h = filter isSystem h @ drop 6 (filter (\<lambda>msg. \<not> isSystem msg) h)"
proof -
  have "length h = 26" using length_filter_split[of isSystem h] s n by simp
  then show ?thesis using s n
    by (simp add: trimHistory_def Let_def slice_from_def MAX_HISTORY_LENGTH_def)
qed

section \<open>Properties of the regular expression scan\<close>

lemma rx_match_shorter:
  "(rest, caps') \<in> set (rx_match r (s, caps)) \<Longrightarrow> length rest \<le> length s"
proof (induction r arbitrary: s caps rest caps')
  case (Seq a b)
  then obtain mid capsm where m1: "(mid, capsm) \<in> set (rx_match a (s, caps))"
    and m2: "(rest, caps') \<in> set (rx_match b (mid, capsm))"
    by auto
  from Seq.IH(1)[OF m1] Seq.IH(2)[OF m2] show ?case by simp
next
  case (Alt a b)
  then show ?case by auto
next
  case (Opt a)
  then show ?case by auto
next
  case (Group a)
  then show ?case by auto
qed (auto split: if_splits)

lemma rx_match_lit_head:
  assumes "(rest, caps') \<in> set (rx_match (Seq (Lit l) r) (s, caps))"
  shows "length rest + length l \<le> length s"
proof -
  from assms have sw: "startsWith s l"
    and m: "(rest, caps') \<in> set (rx_match r (drop (length l) s, caps))"
    by (auto split: if_splits)
  from sw have "length l \<le> length s"
    unfolding startsWith_def by (metis length_take min.cobounded1 min.commute)
  moreover from rx_match_shorter[OF m] have "length rest \<le> length s - length l" by simp
  ultimately show ?thesis by simp
qed

lemma rx_search_bounds:
  "rx_search r i s = Some m \<Longrightarrow>
     i \<le> index m \<and> index m \<le> lastIndex m \<and> lastIndex m \<le> i + length s"
proof (induction s arbitrary: i)
  case Nil
  then show ?case by (auto split: list.splits)
next
  case (Cons c s)
  show ?case
  proof (cases "rx_match r (c # s, [])")
    case Nil
    with Cons.prems have "rx_search r (Suc i) s = Some m" by simp
    from Cons.IH[OF this] show ?thesis by simp
  next
    case (Cons p ps)
    obtain rest caps where p: "p = (rest, caps)" by (cases p)
    with Cons Cons.prems
    have m: "m = \<lparr>index = i, lastIndex = i + (length (c # s) - length rest), groups = caps\<rparr>"
      by simp
    have "(rest, caps) \<in> set (rx_match r (c # s, []))" using Cons p by simp
    from rx_match_shorter[OF this] m show ?thesis by simp
  qed
qed

lemma rx_exec_bounds:
  "rx_exec r tx i = Some m \<Longrightarrow>
     i \<le> index m \<and> index m \<le> lastIndex m \<and> lastIndex m \<le> length tx"
  unfolding rx_exec_def
  by (auto split: if_splits dest!: rx_search_bounds)




lemma rx_search_progress:
  assumes shrink:
    "\<And>s rest caps. (rest, caps) \<in> set (rx_match R (s, [])) \<Longrightarrow> length rest < length s"
  shows "rx_search R i s = Some m \<Longrightarrow> index m < lastIndex m"
proof (induction s arbitrary: i)
  case Nil
  show ?case
  proof (cases "rx_match R ([], [])")
    case Nil
    with Nil.prems show ?thesis by simp
  next
    case (Cons p ps)
    obtain rest caps where "p = (rest, caps)" by (cases p)
    with Cons have "(rest, caps) \<in> set (rx_match R ([], []))" by simp
    from shrink[OF this] show ?thesis by simp
  qed
next
  case (Cons d s)
  show ?case
  proof (cases "rx_match R (d # s, [])")
    case Nil
    with Cons.prems have "rx_search R (Suc i) s = Some m" by simp
    from Cons.IH[OF this] show ?thesis .
  next
    case (Cons p ps)
    obtain rest caps where p: "p = (rest, caps)" by (cases p)
    with Cons Cons.prems
    have m: "m = \<lparr>index = i, lastIndex = i + (length (d # s) - length rest), groups = caps\<rparr>"
      by simp
    have "(rest, caps) \<in> set (rx_match R (d # s, []))" using Cons p by simp
    from shrink[OF this] m show ?thesis by simp
  qed
qed

lemma rx_exec_lit_head:
  assumes "rx_exec (Seq (Lit (c # l)) r) tx i = Some m"
  shows "index m < lastIndex m"
proof -
  from assms have "rx_search (Seq (Lit (c # l)) r) i (drop i tx) = Some m"
    by (auto simp: rx_exec_def split: if_splits)
  then show ?thesis
  proof (rule rx_search_progress[rotated])
    fix s rest caps
    assume "(rest, caps) \<in> set (rx_match (Seq (Lit (c # l)) r) (s, []))"
    from rx_match_lit_head[OF this] show "length rest < length s" by simp
  qed
qed

text \<open>
  The guard of \<open>rx_exec_all\<close> holds at every match of a regular expression that begins
  with a non-empty literal: the scan stops only when \<^verbatim>\<open>exec\<close> finds nothing.
\<close>

lemma rx_exec_guard:
  assumes "rx_exec (Seq (Lit (c # l)) r) tx i = Some m"
  shows "i < lastIndex m \<and> lastIndex m \<le> length tx"
  using rx_exec_bounds[OF assms] rx_exec_lit_head[OF assms] by simp




section \<open>Eviction\<close>

text \<open>
  Claim C8 (scenario D). When the history, with the new messages and the reply pushed,
  holds one system message and twenty-five others, \<open>updateConversationHistory\<close> leaves
  the system message followed by exactly the nineteen most recent of the others, each
  part in its former order; the cap is 20.
\<close>

theorem eviction_scenario_D:
  assumes h: "h = (history @ new) @ [message response]"
    and s: "length (filter isSystem h) = 1"
    and n: "length (filter (\<lambda>msg. \<not> isSystem msg) h) = 25"
  shows "updateConversationHistory new response history =
           filter isSystem h @ most_recent 19 (filter (\<lambda>msg. \<not> isSystem msg) h)
         \<and> length (most_recent 19 (filter (\<lambda>msg. \<not> isSystem msg) h)) = 19
         \<and> MAX_HISTORY_LENGTH = 20"
  using trim_scenario[OF s n] n h
  by (simp add: updateConversationHistory_def most_recent_def MAX_HISTORY_LENGTH_def)

text \<open>
  Scenario D on a concrete history: the system message, then the messages numbered 7 to
  24 and the reply.
\<close>

theorem eviction_scenario_D_witness:
  "updateConversationHistory scenario_D_new scenario_D_reply scenario_D_history =
     numbered System 0 # map (numbered User) [7 ..< 25] @ [\<lparr>role = Assistant, content = str ''25''\<rparr>]"
proof -
  let ?h = "(scenario_D_history @ scenario_D_new) @ [message scenario_D_reply]"
  have s: "length (filter isSystem ?h) = 1" by code_simp
  have n: "length (filter (\<lambda>msg. \<not> isSystem msg) ?h) = 25" by code_simp
  have "filter isSystem ?h @ most_recent 19 (filter (\<lambda>msg. \<not> isSystem msg) ?h) =
     numbered System 0 # map (numbered User) [7 ..< 25] @ [\<lparr>role = Assistant, content = str ''25''\<rparr>]"
    by code_simp
  with eviction_scenario_D[OF refl s n] show ?thesis by simp
qed

lemma history_after_systems:
  "filter isSystem (history_after turns h) = filter isSystem (h @ turn_messages turns)"
proof (induction turns arbitrary: h)
  case Nil
  then show ?case by simp
next
  case (Cons t turns)
  obtain new resp where t: "t = (new, resp)" by (cases t)
  show ?case
    by (simp add: t Cons.IH updateConversationHistory_def trim_systems)
qed

lemma history_after_length:
  assumes "length h \<le> MAX_HISTORY_LENGTH"
    and "length (filter isSystem (h @ turn_messages turns)) < MAX_HISTORY_LENGTH"
  shows "length (history_after turns h) \<le> MAX_HISTORY_LENGTH"
  using assms
proof (induction turns arbitrary: h)
  case Nil
  then show ?case by simp
next
  case (Cons t turns)
  obtain new resp where t: "t = (new, resp)" by (cases t)
  let ?h' = "updateConversationHistory new resp h"
  have sys: "filter isSystem ?h' = filter isSystem ((h @ new) @ [message resp])"
    by (simp add: updateConversationHistory_def trim_systems)
  have "length (filter isSystem ((h @ new) @ [message resp])) < MAX_HISTORY_LENGTH"
    using Cons.prems(2) by (simp add: t split: if_splits)
  then have len: "length ?h' \<le> MAX_HISTORY_LENGTH"
    unfolding updateConversationHistory_def by (rule trim_length)
  have "length (filter isSystem (?h' @ turn_messages turns)) < MAX_HISTORY_LENGTH"
    using Cons.prems(2) sys by (simp add: t split: if_splits)
  from Cons.IH[OF len this] show ?case by (simp add: t)
qed

text \<open>
  Claim C3, amended. After any number of completed turns, starting from a history within
  the cap: if fewer than 20 system-role messages have been stored in all, the history
  holds at most 20 messages. And in every case the system-role messages of the history
  are exactly the ones stored, in order: an eviction pass drops none of them.
\<close>

theorem history_bounded_below_cap:
  "(length h \<le> MAX_HISTORY_LENGTH
      \<and> length (filter isSystem (h @ turn_messages turns)) < MAX_HISTORY_LENGTH
    \<longrightarrow> length (history_after turns h) \<le> MAX_HISTORY_LENGTH)
   \<and> filter isSystem (history_after turns h) = filter isSystem (h @ turn_messages turns)
   \<and> filter isSystem (trimHistory h) = filter isSystem h"
  using history_after_length[of h turns]
  by (simp add: history_after_systems trim_systems)

text \<open>A history of 19 messages, one of them a system message, and a turn that adds two.\<close>

theorem history_bounded_below_cap_witness:
  "length near_cap_history \<le> MAX_HISTORY_LENGTH
   \<and> length (filter isSystem
        (near_cap_history @ turn_messages [(scenario_D_new, scenario_D_reply)])) < MAX_HISTORY_LENGTH
   \<and> length (near_cap_history @ turn_messages [(scenario_D_new, scenario_D_reply)]) = 21
   \<and> length (history_after [(scenario_D_new, scenario_D_reply)] near_cap_history)
        \<le> MAX_HISTORY_LENGTH"
proof -
  have a: "length near_cap_history \<le> MAX_HISTORY_LENGTH" by code_simp
  have b: "length (filter isSystem
        (near_cap_history @ turn_messages [(scenario_D_new, scenario_D_reply)])) < MAX_HISTORY_LENGTH"
    by code_simp
  have c: "length (near_cap_history @ turn_messages [(scenario_D_new, scenario_D_reply)]) = 21"
    by code_simp
  from a b c history_bounded_below_cap[of near_cap_history "[(scenario_D_new, scenario_D_reply)]"]
  show ?thesis by blast
qed

text \<open>
  Claim C3 as stated fails: function call outputs are stored as system messages, and one
  turn whose input holds 21 of them leaves 21 messages in the history.
\<close>

theorem history_exceeds_cap_counterexample:
  "\<not> length (history_after [flood_turn] []) \<le> MAX_HISTORY_LENGTH
   \<and> flood_run = Some 21"
  by code_simp


section \<open>Termination, cancellation and reset\<close>

lemma terminate_result:
  "terminate a = (Inr (), if terminated a then a else abortHard (a\<lparr>terminated := True\<rparr>))"
  by (simp add: terminate_def cancel_def abortHard_def abortExec_def Let_def split: option.splits)

lemma terminated_terminate: "terminated (snd (terminate a))"
  by (simp add: terminate_result abortHard_def abortExec_def split: option.splits)

lemma emitted_terminate: "emitted (snd (terminate a)) = emitted a"
  by (simp add: terminate_result abortHard_def abortExec_def split: option.splits)

lemma callbacks_terminate: "callbacks (snd (terminate a)) = callbacks a"
  by (simp add: terminate_result abortHard_def abortExec_def split: option.splits)

text \<open>
  Claim C2 fails on the code. On an instance on which \<open>terminate\<close> has been called,
  with any input and whatever was canceled before, \<open>run\<close> throws inside its outer
  \<^verbatim>\<open>try\<close> block and the \<^verbatim>\<open>catch\<close> of that block absorbs the error: the loading
  state is cleared, one error item that quotes the termination error is reported, and the
  call resolves. The termination error is never what the caller gets: the call is
  rejected only when one of these two callbacks throws, and then with the error of the
  callback. With callbacks that return, the call resolves after exactly these two calls.
\<close>

theorem run_after_terminate_resolves:
  "run_start e input (snd (terminate a)) =
     (case emit (OnLoading False) (snd (terminate a)) of
        (Inl thrown, a1) \<Rightarrow> (Rejected thrown, a1)
      | (Inr _, a1) \<Rightarrow>
          (case emit (OnItem (Message (Some (str ''error-'' @ decimal (now e))) System
                  [InputText ([0x26A0, 0xFE0F] @
                     str ''  Unhandled error: OllamaAgentLoop has been terminated'')])) a1 of
             (Inl thrown, a2) \<Rightarrow> (Rejected thrown, a2)
           | (Inr _, a2) \<Rightarrow> (Resolved, a2)))
   \<and> run_start e input (snd (terminate (a\<lparr>callbacks := quiet\<rparr>))) =
       (Resolved,
        (snd (terminate (a\<lparr>callbacks := quiet\<rparr>)))\<lparr>emitted := emitted a @
           [OnLoading False,
            OnItem (Message (Some (str ''error-'' @ decimal (now e))) System
              [InputText ([0x26A0, 0xFE0F] @
                 str ''  Unhandled error: OllamaAgentLoop has been terminated'')])]\<rparr>)"
  by (simp add: run_start_def run_entry_def outer_guard_def terminated_terminate
      emitted_terminate callbacks_terminate error_notice_def warning_sign_def emit_def quiet_def
      str_def split: option.splits)

text \<open>
  Claim C4 fails on the code. \<open>terminate\<close> sets the terminated flag before it calls
  \<open>cancel\<close>, and \<open>cancel\<close> returns at once on a terminated instance. So on an instance
  that is not yet terminated, \<open>terminate\<close> only sets the flag and fires the master
  signal: the canceled flag, the generation, the tool-call controller reference, the
  number of controllers and the record of the callbacks' calls are what they were. The
  last two conjuncts compare \<open>terminate\<close> and \<open>cancel\<close> on a fresh instance.
\<close>

theorem terminate_skips_cancel:
  "terminate (a\<lparr>terminated := False\<rparr>) = (Inr (), abortHard (a\<lparr>terminated := True\<rparr>))
   \<and> canceled (snd (terminate (a\<lparr>terminated := False\<rparr>))) = canceled a
   \<and> generation (snd (terminate (a\<lparr>terminated := False\<rparr>))) = generation a
   \<and> execAbortController (snd (terminate (a\<lparr>terminated := False\<rparr>))) = execAbortController a
   \<and> length (controllers (snd (terminate (a\<lparr>terminated := False\<rparr>)))) = length (controllers a)
   \<and> emitted (snd (terminate (a\<lparr>terminated := False\<rparr>))) = emitted a
   \<and> terminate agent0 = (Inr (), agent0\<lparr>terminated := True, hardAbort := True\<rparr>)
   \<and> cancel agent0 = (Inr (), agent0\<lparr>canceled := True, execAbortController := Some 0,
         controllers := [False], emitted := [OnLoading False], generation := 1\<rparr>)"
  by (simp add: terminate_def cancel_def abortHard_def abortExec_def Let_def agent0_def
      newOllamaAgentLoop_def newAbortController_def emit_def quiet_def split: option.splits)

text \<open>
  Claim C9. \<open>clearConversationHistory\<close> empties the history, sets the generation to 0
  and assigns the session id made from the newly drawn UUID (which it also passes to the
  session module); the terminated and canceled flags and every other field are unchanged.
\<close>

theorem clear_frame:
  "clearConversationHistory uuid a =
     a\<lparr>conversationHistory := [], generation := 0,
       sessionId := filter (\<lambda>c. c \<noteq> 0x2D) uuid,
       moduleSessionId := filter (\<lambda>c. c \<noteq> 0x2D) uuid\<rparr>
   \<and> terminated (clearConversationHistory uuid a) = terminated a
   \<and> canceled (clearConversationHistory uuid a) = canceled a
   \<and> hardAbort (clearConversationHistory uuid a) = hardAbort a
   \<and> execAbortController (clearConversationHistory uuid a) = execAbortController a
   \<and> controllers (clearConversationHistory uuid a) = controllers a
   \<and> currentStream (clearConversationHistory uuid a) = currentStream a
   \<and> model (clearConversationHistory uuid a) = model a
   \<and> instructions (clearConversationHistory uuid a) = instructions a
   \<and> ollamaApiUrl (clearConversationHistory uuid a) = ollamaApiUrl a
   \<and> callbacks (clearConversationHistory uuid a) = callbacks a
   \<and> emitted (clearConversationHistory uuid a) = emitted a"
  by (simp add: clearConversationHistory_def Let_def)

section \<open>Dispatch of a patch call\<close>

text \<open>
  Claim C5 fails on the code. A call that the free-text scanner builds for an
  \<^verbatim>\<open>apply_patch\<close> block is never passed on: whatever the argument parser
  answers, \<open>handleFunctionCall\<close> has its result at once, and that result is the
  ``invalid arguments'' output when the parser rejects the payload and the
  ``no function found'' output otherwise (and nothing at all after a cancel).
\<close>

theorem patch_call_not_applied:
  "handleFunctionCall P a (patch_call e k p) =
     (if canceled a then Settled []
      else Settled [FunctionCallOutput (call_id (patch_call e k p))
             (case P (template (arguments (patch_call e k p))) of
                None \<Rightarrow> str ''invalid arguments: '' @ template (arguments (patch_call e k p))
              | Some parsed \<Rightarrow> str ''no function found'')])
   \<and> name (patch_call e k p) = Some (str ''apply_patch'')"
  by (simp add: handleFunctionCall_def patch_call_def Let_def truthy_def template_def str_def
      split: option.splits)

section \<open>Properties of a run\<close>

lemma loading_calls_append [simp]:
  "loading_calls (xs @ ys) = loading_calls xs @ loading_calls ys"
  by (induction xs rule: loading_calls.induct) auto



subsection \<open>Callbacks that return\<close>








lemma guards_pending [simp]:
  "outer_guard e (inner_guard e (Inr (Some t), b)) = (Pending t, b)"
  by (simp add: outer_guard_def inner_guard_def)






subsection \<open>The bodies of the inner statement\<close>













subsection \<open>How a stretch of the run ends\<close>







lemma drive_settled [simp]: "drive e P rs (Resolved, a) = (Resolved, a)"
  by (cases rs) simp_all




subsection \<open>The rounds of the loop over the parsed calls\<close>






section \<open>Order of dispatch\<close>

subsection \<open>Where the scanned blocks stand in the text\<close>








subsection \<open>The parsed calls\<close>





subsection \<open>The two ways a reply is dispatched\<close>










section \<open>A run that has been overtaken\<close>

text \<open>
  Claim C1 fails on the code. \<open>run\<close> captures \<open>thisGeneration\<close> and never compares
  it with the instance's generation: its checkpoints read the canceled flag, which the
  next run resets. In the scenario the first run captured generation 1; when its reply
  arrives the instance is at generation 3 (a cancel and a second run came between), and
  the first run still reports the stale assistant message and a response id, whatever
  the argument parser is.
\<close>

theorem stale_run_still_emits:
  "stale_scenario env0 P =
     Some (1, 3,
       [OnItem (Message (Some (str ''ollama-0-0'')) Assistant [OutputText (str ''stale answer'')]),
        OnLastResponseId (str ''ollama-0-1''),
        OnLoading False])"
  by code_simp

section \<open>How a run settles\<close>






end
